theory Spec2Isabelle
  imports Complex_Main "HOL-Library.Sublist" "HOL-Library.Multiset"
begin

section \<open>Data model of the QC table\<close>

text \<open>
  A cell of a pandas table as the two programs read it: a missing value (NaN), a Python
  int, a finite float (its exact rational value), an infinite float, or a string.
\<close>

datatype cell = NaN | IntV int | FloatV rat | InfV | StrV string

text \<open>
  The exceptions the modelled code can raise. \<open>IndexError\<close> is what \<open>iloc\<close> raises out
  of range, \<open>UnboundLocalError\<close> what reading \<open>upper_range\<close> raises when neither branch of
  the \<open>if\<close>/\<open>elif\<close> assigned it, \<open>ValueError\<close> and \<open>OverflowError\<close> what \<open>int(x)\<close> raises.
\<close>

datatype error = IndexError | UnboundLocalError | ValueError | OverflowError

text \<open>
  \<open>x != 0.0\<close> on a cell, elementwise as pandas does it: NaN compares unequal to
  everything, a string is never equal to a number.
\<close>

fun ne_zero :: "cell \<Rightarrow> bool" where
  "ne_zero NaN = True"
| "ne_zero (IntV i) = (i \<noteq> 0)"
| "ne_zero (FloatV r) = (r \<noteq> 0)"
| "ne_zero InfV = True"
| "ne_zero (StrV s) = True"

text \<open>
  One row of the reformatted QC spreadsheet, with the columns s3_downloader_revised.py
  reads. A missing \<open>filename\<close> cell is \<open>None\<close> (pandas reads it as NaN).
\<close>

record qc_row =
  pGUID :: string
  EventName :: string
  SeriesType :: string
  usable :: cell
  filename :: "string option"

type_synonym dataframe = "qc_row list"

text \<open>\<open>df[df['SeriesType'] == t]\<close>: the rows of that series type, in table order.\<close>

definition by_type :: "string \<Rightarrow> dataframe \<Rightarrow> dataframe" where
  "by_type t df = filter (\<lambda>r. SeriesType r = t) df"

text \<open>\<open>df.shape[0]\<close>, a Python int.\<close>

definition shape0 :: "dataframe \<Rightarrow> int" where
  "shape0 df = int (length df)"

text \<open>\<open>df.iloc[i]\<close> raises IndexError out of range.\<close>

definition iloc :: "dataframe \<Rightarrow> nat \<Rightarrow> error + qc_row" where
  "iloc df i = (if i < length df then Inr (df ! i) else Inl IndexError)"

text \<open>
  \<open>for file_path in df['filename']: file_paths += [file_path]\<close>
\<close>

definition append_paths :: "string option list \<Rightarrow> dataframe \<Rightarrow> string option list" where
  "append_paths file_paths df = fold (\<lambda>file_path acc. acc @ [file_path]) (map filename df) file_paths"

section \<open>s3_downloader_revised.py: the modality selectors\<close>

subsection \<open>add_anat_paths\<close>

definition add_anat_paths ::
  "dataframe \<Rightarrow> string option list \<Rightarrow> string option list \<times> int \<times> int" where
  "add_anat_paths passed_QC_group file_paths =
     (let T1_df = by_type ''ABCD-T1-NORM'' passed_QC_group;
          (file_paths, has_t1) =
            (if T1_df = [] then
               (let T1_df = by_type ''ABCD-T1'' passed_QC_group in
                if T1_df = [] then (file_paths, 0)
                else (append_paths file_paths T1_df, shape0 T1_df))
             else (append_paths file_paths T1_df, shape0 T1_df));
          T2_df = by_type ''ABCD-T2-NORM'' passed_QC_group;
          (file_paths, has_t2) =
            (if T2_df = [] then
               (let T2_df = by_type ''ABCD-T2'' passed_QC_group in
                if T2_df = [] then (file_paths, 0)
                else (append_paths file_paths T2_df, shape0 T2_df))
             else (append_paths file_paths T2_df, shape0 T2_df))
      in (file_paths, has_t1, has_t2))"

subsection \<open>Pairing AP and PA field maps\<close>

text \<open>
  The \<open>if\<close>/\<open>elif\<close> that sets \<open>upper_range\<close> (lines 302-305 and 376-379). It has no
  \<open>else\<close>: were neither condition true, the loop header would read an unbound name.
\<close>

definition upper_range :: "dataframe \<Rightarrow> dataframe \<Rightarrow> error + nat" where
  "upper_range FM_AP_df FM_PA_df =
     (if shape0 FM_AP_df \<le> shape0 FM_PA_df then Inr (length FM_AP_df)
      else if shape0 FM_AP_df > shape0 FM_PA_df then Inr (length FM_PA_df)
      else Inl UnboundLocalError)"

text \<open>
  The loop \<open>for i in range(0, upper_range)\<close> (lines 308-311 and 381-384), over the
  indices still to visit. Python's \<open>and\<close> reads \<open>FM_PA_df.iloc[i]\<close> only when the AP
  row is usable.
\<close>

fun pair_loop :: "dataframe \<Rightarrow> dataframe \<Rightarrow> nat list \<Rightarrow> dataframe \<Rightarrow> error + dataframe" where
  "pair_loop FM_AP_df FM_PA_df [] FM_df = Inr FM_df"
| "pair_loop FM_AP_df FM_PA_df (i # rest) FM_df =
     (case iloc FM_AP_df i of
        Inl e \<Rightarrow> Inl e
      | Inr ap \<Rightarrow>
          if ne_zero (usable ap) then
            (case iloc FM_PA_df i of
               Inl e \<Rightarrow> Inl e
             | Inr pa \<Rightarrow>
                 if ne_zero (usable pa)
                 then pair_loop FM_AP_df FM_PA_df rest (FM_df @ [ap] @ [pa])
                 else pair_loop FM_AP_df FM_PA_df rest FM_df)
          else pair_loop FM_AP_df FM_PA_df rest FM_df)"

definition pair_fmaps :: "dataframe \<Rightarrow> dataframe \<Rightarrow> dataframe \<Rightarrow> error + dataframe" where
  "pair_fmaps FM_AP_df FM_PA_df FM_df =
     (case upper_range FM_AP_df FM_PA_df of
        Inl e \<Rightarrow> Inl e
      | Inr n \<Rightarrow> pair_loop FM_AP_df FM_PA_df [0..<n] FM_df)"

subsection \<open>add_func_paths\<close>

definition FUNC_TYPES :: "string list" where
  "FUNC_TYPES = [''ABCD-rsfMRI'', ''ABCD-MID-fMRI'', ''ABCD-nBack-fMRI'', ''ABCD-SST-fMRI'']"

text \<open>
  The block repeated for rsfMRI, MID, SST and nBack (lines 322-352): the passing rows of
  one series type, their paths appended and their number returned, 0 when there are none.
\<close>

definition add_series ::
  "string \<Rightarrow> dataframe \<Rightarrow> string option list \<Rightarrow> string option list \<times> int" where
  "add_series t passed_QC_group file_paths =
     (let df = by_type t passed_QC_group in
      if df = [] then (file_paths, 0)
      else (append_paths file_paths df, shape0 df))"

type_synonym func_result = "string option list \<times> int \<times> int \<times> int \<times> int \<times> int"

text \<open>Lines 292-311: the field maps to download, or the exception of the loop.\<close>

definition func_fmaps :: "dataframe \<Rightarrow> dataframe \<Rightarrow> error + dataframe" where
  "func_fmaps all_group passed_QC_group =
     (let FM_df = by_type ''ABCD-fMRI-FM'' passed_QC_group in
      if FM_df = [] then
        (let FM_AP_df = by_type ''ABCD-fMRI-FM-AP'' all_group;
             FM_PA_df = by_type ''ABCD-fMRI-FM-PA'' all_group
         in if FM_AP_df = [] then Inr FM_df
            else pair_fmaps FM_AP_df FM_PA_df FM_df)
      else Inr FM_df)"

definition add_func_paths ::
  "dataframe \<Rightarrow> dataframe \<Rightarrow> string option list \<Rightarrow> error + func_result" where
  "add_func_paths all_group passed_QC_group file_paths =
     (if list_ex (\<lambda>r. SeriesType r \<in> set FUNC_TYPES) passed_QC_group then
        (case func_fmaps all_group passed_QC_group of
           Inl e \<Rightarrow> Inl e
         | Inr FM_df \<Rightarrow>
             if FM_df = [] then Inr (file_paths, 0, 10000, 10000, 10000, 10000)
             else
               (let file_paths = append_paths file_paths FM_df;
                    has_sefm = shape0 FM_df;
                    (file_paths, has_rsfmri) = add_series ''ABCD-rsfMRI'' passed_QC_group file_paths;
                    (file_paths, has_mid) = add_series ''ABCD-MID-fMRI'' passed_QC_group file_paths;
                    (file_paths, has_sst) = add_series ''ABCD-SST-fMRI'' passed_QC_group file_paths;
                    (file_paths, has_nback) = add_series ''ABCD-nBack-fMRI'' passed_QC_group file_paths
                in Inr (file_paths, has_sefm, has_rsfmri, has_mid, has_sst, has_nback)))
      else Inr (file_paths, 0, 0, 0, 0, 0))"

subsection \<open>add_dwi_paths\<close>

text \<open>Lines 385-390, reached with the field maps found.\<close>

definition dwi_finish ::
  "dataframe \<Rightarrow> dataframe \<Rightarrow> string option list \<Rightarrow> string option list \<times> int" where
  "dwi_finish DTI_df DTI_FM_df file_paths =
     (let file_paths =
            (if DTI_FM_df \<noteq> [] then append_paths (append_paths file_paths DTI_df) DTI_FM_df
             else file_paths)
      in (file_paths, shape0 DTI_df))"

definition add_dwi_paths ::
  "dataframe \<Rightarrow> dataframe \<Rightarrow> string option list \<Rightarrow> error + (string option list \<times> int)" where
  "add_dwi_paths all_group passed_QC_group file_paths =
     (let DTI_df = by_type ''ABCD-DTI'' passed_QC_group in
      if shape0 DTI_df \<ge> 1 then
        (let DTI_FM_df = by_type ''ABCD-Diffusion-FM'' passed_QC_group in
         if DTI_FM_df = [] then
           (let DTI_FM_AP_df = by_type ''ABCD-Diffusion-FM-AP'' all_group;
                DTI_FM_PA_df = by_type ''ABCD-Diffusion-FM-PA'' all_group;
                DTI_FM_df = []
            in if DTI_FM_AP_df = [] then Inr (file_paths, 0)
               else
                 (case pair_fmaps DTI_FM_AP_df DTI_FM_PA_df DTI_FM_df of
                    Inl e \<Rightarrow> Inl e
                  | Inr DTI_FM_df \<Rightarrow> Inr (dwi_finish DTI_df DTI_FM_df file_paths)))
         else Inr (dwi_finish DTI_df DTI_FM_df file_paths))
      else Inr (file_paths, shape0 DTI_df))"

section \<open>s3_downloader_revised.py: one (subject, session) iteration of main\<close>

text \<open>The eight presence counts of a manifest row and the running totals of the run.\<close>

record presence =
  has_t1 :: int
  has_t2 :: int
  has_sefm :: int
  has_rsfmri :: int
  has_mid :: int
  has_sst :: int
  has_nback :: int
  has_dti :: int

record totals =
  num_sub_visits :: int
  num_t1 :: int
  num_rsfmri :: int
  num_sst :: int
  num_mid :: int
  num_nback :: int
  num_t2 :: int
  num_dti :: int

text \<open>Lines 180-193: the seven tests after the manifest row is written.\<close>

definition tally :: "presence \<Rightarrow> totals \<Rightarrow> totals" where
  "tally h t =
     (let t = (if has_t1 h \<noteq> 0 then t\<lparr>num_t1 := num_t1 t + 1\<rparr> else t);
          t = (if has_t2 h \<noteq> 0 then t\<lparr>num_t2 := num_t2 t + 1\<rparr> else t);
          t = (if has_rsfmri h \<noteq> 0 \<and> has_rsfmri h \<noteq> 10000
               then t\<lparr>num_rsfmri := num_rsfmri t + 1\<rparr> else t);
          t = (if has_mid h \<noteq> 0 \<and> has_mid h \<noteq> 10000
               then t\<lparr>num_mid := num_mid t + 1\<rparr> else t);
          t = (if has_sst h \<noteq> 0 \<and> has_sst h \<noteq> 10000
               then t\<lparr>num_sst := num_sst t + 1\<rparr> else t);
          t = (if has_nback h \<noteq> 0 \<and> has_nback h \<noteq> 10000
               then t\<lparr>num_nback := num_nback t + 1\<rparr> else t);
          t = (if has_dti h \<noteq> 0 then t\<lparr>num_dti := num_dti t + 1\<rparr> else t)
      in t)"

text \<open>
  Lines 148-172: the two views of the session's rows and the three selectors, each run
  only when its modality was asked for. An exception of a selector ends the run.
\<close>

definition sub_ses :: "dataframe \<Rightarrow> string \<Rightarrow> string \<Rightarrow> dataframe" where
  "sub_ses series_df bids_id year =
     (let subject_df = filter (\<lambda>r. pGUID r = bids_id) series_df
      in filter (\<lambda>r. EventName r = year) subject_df)"

definition pass_QC :: "dataframe \<Rightarrow> dataframe" where
  "pass_QC sub_ses_df = filter (\<lambda>r. ne_zero (usable r)) sub_ses_df"

definition select_session ::
  "dataframe \<Rightarrow> string list \<Rightarrow> error + (string option list \<times> presence)" where
  "select_session sub_ses_df modalities =
     (let sub_pass_QC_df = pass_QC sub_ses_df;
          file_paths = [];
          (file_paths, t1, t2) =
            (if ''anat'' \<in> set modalities then add_anat_paths sub_pass_QC_df file_paths
             else (file_paths, 0, 0))
      in case (if ''func'' \<in> set modalities
               then add_func_paths sub_ses_df sub_pass_QC_df file_paths
               else Inr (file_paths, 0, 0, 0, 0, 0)) of
           Inl e \<Rightarrow> Inl e
         | Inr (file_paths, sefm, rsfmri, mid, sst, nback) \<Rightarrow>
             (case (if ''dwi'' \<in> set modalities
                    then add_dwi_paths sub_ses_df sub_pass_QC_df file_paths
                    else Inr (file_paths, 0)) of
                Inl e \<Rightarrow> Inl e
              | Inr (file_paths, dti) \<Rightarrow>
                  Inr (file_paths,
                       \<lparr>has_t1 = t1, has_t2 = t2, has_sefm = sefm, has_rsfmri = rsfmri,
                        has_mid = mid, has_sst = sst, has_nback = nback, has_dti = dti\<rparr>)))"

subsection \<open>The download loop and the missing-files log\<close>

text \<open>\<open>str(file_path)\<close>: a missing cell prints as nan.\<close>

definition str_path :: "string option \<Rightarrow> string" where
  "str_path file_path = (case file_path of None \<Rightarrow> ''nan'' | Some s \<Rightarrow> s)"

text \<open>\<open>s.split(c)\<close> with a one-character separator: never empty.\<close>

fun split_on :: "char \<Rightarrow> string \<Rightarrow> string list" where
  "split_on c [] = [[]]"
| "split_on c (x # xs) =
     (if x = c then [] # split_on c xs
      else (case split_on c xs of
              [] \<Rightarrow> [[x]]
            | y # ys \<Rightarrow> (x # y) # ys))"

text \<open>\<open>s.strip()\<close> on ASCII text: the whitespace characters of Python's str.\<close>

definition is_space :: "char \<Rightarrow> bool" where
  "is_space c = (c \<in> set [CHR 0x09, CHR 0x0A, CHR 0x0B, CHR 0x0C, CHR 0x0D,
                           CHR 0x1C, CHR 0x1D, CHR 0x1E, CHR 0x1F, CHR 0x20])"

definition strip :: "string \<Rightarrow> string" where
  "strip s = rev (dropWhile is_space (rev (dropWhile is_space s)))"

text \<open>\<open>os.path.join\<close> of posixpath.\<close>

definition path_join2 :: "string \<Rightarrow> string \<Rightarrow> string" where
  "path_join2 path b =
     (if b \<noteq> [] \<and> hd b = CHR ''/'' then b
      else if path = [] \<or> last path = CHR ''/'' then path @ b
      else path @ ''/'' @ b)"

definition os_path_join :: "string \<Rightarrow> string list \<Rightarrow> string" where
  "os_path_join a p = foldl path_join2 a p"

text \<open>Negative list indices \<open>xs[-k]\<close>, raising IndexError when the list is too short.\<close>

definition from_end :: "'a list \<Rightarrow> nat \<Rightarrow> error + 'a" where
  "from_end xs k = (if 0 < k \<and> k \<le> length xs then Inr (xs ! (length xs - k)) else Inl IndexError)"

text \<open>
  The storage is outside the program: \<open>s3_ls path\<close> says whether \<open>s3cmd ls\<close> returned 0,
  \<open>s3_get path destination\<close> whether \<open>s3cmd get\<close> succeeded. The lines appended to the
  missing-files log are returned in order. Lines 207-240, for the parts of one
  \<open>file_path\<close>.
\<close>

fun download_parts ::
  "(string \<Rightarrow> bool) \<Rightarrow> (string \<Rightarrow> string \<Rightarrow> bool) \<Rightarrow> string \<Rightarrow> string \<Rightarrow> string \<Rightarrow> string
     \<Rightarrow> string list \<Rightarrow> error + string list" where
  "download_parts s3_ls s3_get s3_bucket tgz_dir bids_id bids_year [] = Inr []"
| "download_parts s3_ls s3_get s3_bucket tgz_dir bids_id bids_year (split_value # rest) =
     (let full_file_path = s3_bucket @ ''/'' @ strip split_value in
      case
        (if s3_ls full_file_path then
           (case from_end (split_on CHR ''/'' full_file_path) 2 of
              Inl e \<Rightarrow> Inl e
            | Inr second_last_dir \<Rightarrow>
                (case from_end (split_on CHR ''/'' full_file_path) 1 of
                   Inl e \<Rightarrow> Inl e
                 | Inr file_name \<Rightarrow>
                     (let destination_dir = os_path_join tgz_dir [second_last_dir, file_name] in
                      if s3_get full_file_path destination_dir then Inr []
                      else Inr [bids_id @ ''; '' @ bids_year @ ''; '' @ full_file_path
                                  @ [CHR 0x0A]])))
         else Inr [bids_id @ ''; '' @ bids_year @ ''; '' @ full_file_path @ ''; ''
                     @ [CHR 0x0A]]) of
        Inl e \<Rightarrow> Inl e
      | Inr logged \<Rightarrow>
          (case download_parts s3_ls s3_get s3_bucket tgz_dir bids_id bids_year rest of
             Inl e \<Rightarrow> Inl e
           | Inr later \<Rightarrow> Inr (logged @ later)))"

text \<open>Lines 203-240: every selected path, split at the semicolons.\<close>

fun download_all ::
  "(string \<Rightarrow> bool) \<Rightarrow> (string \<Rightarrow> string \<Rightarrow> bool) \<Rightarrow> string \<Rightarrow> string \<Rightarrow> string \<Rightarrow> string
     \<Rightarrow> string option list \<Rightarrow> error + string list" where
  "download_all s3_ls s3_get s3_bucket tgz_dir bids_id bids_year [] = Inr []"
| "download_all s3_ls s3_get s3_bucket tgz_dir bids_id bids_year (file_path # rest) =
     (case download_parts s3_ls s3_get s3_bucket tgz_dir bids_id bids_year
             (split_on CHR '';'' (str_path file_path)) of
        Inl e \<Rightarrow> Inl e
      | Inr logged \<Rightarrow>
          (case download_all s3_ls s3_get s3_bucket tgz_dir bids_id bids_year rest of
             Inl e \<Rightarrow> Inl e
           | Inr later \<Rightarrow> Inr (logged @ later)))"

text \<open>
  What one iteration of the inner loop of main leaves behind: the row written to the
  download log, the selected paths, the totals and the lines added to the missing-files
  log.
\<close>

record session_result =
  manifest_row :: "string \<times> string \<times> presence"
  selected :: "string option list"
  new_totals :: totals
  missing :: "string list"

definition process_session ::
  "(string \<Rightarrow> bool) \<Rightarrow> (string \<Rightarrow> string \<Rightarrow> bool) \<Rightarrow> string \<Rightarrow> string \<Rightarrow> dataframe
     \<Rightarrow> string list \<Rightarrow> string \<Rightarrow> string \<Rightarrow> totals \<Rightarrow> error + session_result" where
  "process_session s3_ls s3_get s3_bucket download_dir series_df modalities sub bids_year t =
     (let bids_id = ''sub-'' @ sub;
          year = ''ses-'' @ bids_year;
          sub_ses_df = sub_ses series_df bids_id year;
          t = t\<lparr>num_sub_visits := num_sub_visits t + 1\<rparr>;
          tgz_dir = os_path_join download_dir [bids_id, ''ses-'' @ bids_year]
      in case select_session sub_ses_df modalities of
           Inl e \<Rightarrow> Inl e
         | Inr (file_paths, h) \<Rightarrow>
             (let t = tally h t in
              case download_all s3_ls s3_get s3_bucket tgz_dir bids_id bids_year file_paths of
                Inl e \<Rightarrow> Inl e
              | Inr lines \<Rightarrow>
                  Inr \<lparr>manifest_row = (bids_id, year, h), selected = file_paths,
                       new_totals = t, missing = lines\<rparr>))"

section \<open>abcd2bids.py: reformat_fastqc_spreadsheet\<close>

text \<open>
  \<open>reformat_fastqc_spreadsheet\<close> from the table \<open>all_qc_data\<close> that \<open>read_csv\<close> returns
  (line 429) to the table handed to \<open>to_csv\<close> (line 540). A row of the raw table has the
  ten columns the function names and, in \<open>other_cells\<close>, the cells of every other column.
  Text is kept as its UTF-8 bytes.
\<close>

record fastqc_row =
  col_pGUID :: cell
  col_VisitID :: cell
  col_EventName :: cell
  col_SeriesType :: cell
  col_ABCD_Compliant :: cell
  col_SeriesDescription :: cell
  col_Completed :: cell
  col_StudyDate :: cell
  col_SeriesTime :: cell
  col_QC :: cell
  other_cells :: "cell list"

text \<open>
  A row of \<open>reformatted_data\<close>: \<open>source_row\<close> holds the row as it was selected (line 464),
  \<open>SeriesTime_padded\<close> is what line 467 puts into the SeriesTime column, and the last two
  fields are the two columns added.
\<close>

record reformatted_row =
  source_row :: fastqc_row
  SeriesTime_padded :: string
  dicom_filename_ends_with :: string
  file_path_col :: "string option"

subsection \<open>Python and pandas\<close>

text \<open>
  Four library functions are not written out, because what they do is fixed by the Unicode
  character database, by the float printing of Python, or by the sorting code of pandas;
  and one step depends on the version of pandas. They are parameters of the model:
  \<^item> \<open>int_str s\<close> is \<open>int(s)\<close> for a string, \<open>None\<close> when it raises ValueError;
  \<^item> \<open>isnumeric s\<close> is \<open>s.isnumeric()\<close>;
  \<^item> \<open>float_str x\<close> is \<open>str(x)\<close> for a float cell;
  \<^item> \<open>sort_values df\<close> is \<open>df.sort_values(['pGUID', 'EventName', 'SeriesDescription',
    'file_path'])\<close>, or the exception it raises;
  \<^item> \<open>empty_apply_raises\<close> says whether \<open>apply(determine_file_path, axis=1)\<close> on a
    table without rows returns a frame, whose assignment to the one column \<open>file_path\<close>
    raises ValueError (pandas before 2.0), or an empty column (later versions).
\<close>

record builtins =
  int_str :: "string \<Rightarrow> int option"
  isnumeric :: "string \<Rightarrow> bool"
  float_str :: "cell \<Rightarrow> string"
  sort_values :: "reformatted_row list \<Rightarrow> error + reformatted_row list"
  empty_apply_raises :: bool

text \<open>\<open>str(n)\<close> for an int: decimal digits, with a minus sign when negative.\<close>

definition digit_char :: "nat \<Rightarrow> char" where
  "digit_char d = ''0123456789'' ! d"

function str_nat :: "nat \<Rightarrow> string" where
  "str_nat n = (if n < 10 then [digit_char n] else str_nat (n div 10) @ [digit_char (n mod 10)])"
  by pat_completeness auto
termination
  by (relation "measure id") auto

definition py_str_int :: "int \<Rightarrow> string" where
  "py_str_int i = (if i < 0 then CHR ''-'' # str_nat (nat (- i)) else str_nat (nat i))"


text \<open>\<open>s.strip('"')\<close>\<close>

definition strip_quote :: "string \<Rightarrow> string" where
  "strip_quote s =
     rev (dropWhile (\<lambda>c. c = CHR 0x22) (rev (dropWhile (\<lambda>c. c = CHR 0x22) s)))"

text \<open>
  \<open>s.replace(old, new)\<close>: every occurrence of \<open>old\<close>, found from the left without
  overlap. With an empty \<open>old\<close>, \<open>new\<close> goes before every character and at the end.
\<close>

function replace_all :: "string \<Rightarrow> string \<Rightarrow> string \<Rightarrow> string" where
  "replace_all old new s =
     (if old = [] then new @ concat (map (\<lambda>c. c # new) s)
      else if s = [] then []
      else if take (length old) s = old then new @ replace_all old new (drop (length old) s)
      else hd s # replace_all old new (tl s))"
  by pat_completeness auto
termination
  by (relation "measure (\<lambda>(old, new, s). length s)") auto




text \<open>
  \<open>Series.apply\<close> and \<open>applymap\<close>: the function is applied to the cells in order, and the
  first exception leaves the whole function.
\<close>

fun apply_series :: "('a \<Rightarrow> error + 'b) \<Rightarrow> 'a list \<Rightarrow> error + 'b list" where
  "apply_series f [] = Inr []"
| "apply_series f (x # xs) =
     (case f x of
        Inl e \<Rightarrow> Inl e
      | Inr y \<Rightarrow> (case apply_series f xs of Inl e \<Rightarrow> Inl e | Inr ys \<Rightarrow> Inr (y # ys)))"

subsection \<open>Lines 441-442: quotes and numbers\<close>

definition cells_of :: "fastqc_row \<Rightarrow> cell list" where
  "cells_of r =
     [col_pGUID r, col_VisitID r, col_EventName r, col_SeriesType r, col_ABCD_Compliant r,
      col_SeriesDescription r, col_Completed r, col_StudyDate r, col_SeriesTime r, col_QC r]
     @ other_cells r"

definition map_cells :: "(cell \<Rightarrow> cell) \<Rightarrow> fastqc_row \<Rightarrow> fastqc_row" where
  "map_cells f r =
     \<lparr>col_pGUID = f (col_pGUID r), col_VisitID = f (col_VisitID r),
      col_EventName = f (col_EventName r), col_SeriesType = f (col_SeriesType r),
      col_ABCD_Compliant = f (col_ABCD_Compliant r),
      col_SeriesDescription = f (col_SeriesDescription r),
      col_Completed = f (col_Completed r), col_StudyDate = f (col_StudyDate r),
      col_SeriesTime = f (col_SeriesTime r), col_QC = f (col_QC r),
      other_cells = map f (other_cells r)\<rparr>"

text \<open>\<open>lambda x: x.strip('"') if isinstance(x, str) else x\<close>\<close>

fun strip_quotes_cell :: "cell \<Rightarrow> cell" where
  "strip_quotes_cell (StrV s) = StrV (strip_quote s)"
| "strip_quotes_cell x = x"

text \<open>\<open>lambda x: int(x) if isinstance(x, str) and x.isnumeric() else x\<close>\<close>

fun numeric_cell :: "builtins \<Rightarrow> cell \<Rightarrow> error + cell" where
  "numeric_cell B (StrV s) =
     (if isnumeric B s
      then (case int_str B s of None \<Rightarrow> Inl ValueError | Some i \<Rightarrow> Inr (IntV i))
      else Inr (StrV s))"
| "numeric_cell B x = Inr x"

text \<open>
  \<open>applymap\<close> with a function that can raise. Every exception of \<open>numeric_cell\<close> is a
  ValueError, so the order in which pandas walks the cells does not show in the result:
  it is the exception when some cell raises, and the table of the converted cells otherwise.
\<close>

definition applymap :: "(cell \<Rightarrow> error + cell) \<Rightarrow> fastqc_row list \<Rightarrow> error + fastqc_row list" where
  "applymap f df =
     (case apply_series f (concat (map cells_of df)) of
        Inl e \<Rightarrow> Inl e
      | Inr _ \<Rightarrow> Inr (map (map_cells (\<lambda>x. case f x of Inl _ \<Rightarrow> x | Inr y \<Rightarrow> y)) df))"

definition clean_table :: "builtins \<Rightarrow> fastqc_row list \<Rightarrow> error + fastqc_row list" where
  "clean_table B all_qc_data =
     applymap (numeric_cell B) (map (map_cells strip_quotes_cell) all_qc_data)"

subsection \<open>Lines 452-474: filter, series time and suffix\<close>

text \<open>\<open>(Completed != 0) & (ABCD_Compliant != 'Bad')\<close>\<close>

definition keep_row :: "fastqc_row \<Rightarrow> bool" where
  "keep_row r = (ne_zero (col_Completed r) \<and> col_ABCD_Compliant r \<noteq> StrV ''Bad'')"

text \<open>Line 464: only the ten required columns go on.\<close>

definition required_columns :: "fastqc_row \<Rightarrow> fastqc_row" where
  "required_columns r = r\<lparr>other_cells := []\<rparr>"



subsection \<open>Lines 477-529: determine_file_path\<close>

text \<open>
  The series type is compared with fixed strings, so a cell that is no string matches
  none. \<open>split("_")[-1]\<close> and \<open>split('_')[1]\<close> are only taken of those fixed strings.
\<close>

definition determine_file_path :: "cell \<Rightarrow> string \<Rightarrow> string option" where
  "determine_file_path series_type filename_suffix =
     (let base_path =
        (if series_type = StrV ''T1_NORM''
           then Some (''anat/ABCD-T1-NORM_run-'' @ filename_suffix @ ''.dicom.tgz'')
         else if series_type = StrV ''T1''
           then Some (''anat/ABCD-T1_run-'' @ filename_suffix @ ''.dicom.tgz'')
         else if series_type = StrV ''T2_NORM''
           then Some (''anat/ABCD-T2-NORM_run-'' @ filename_suffix @ ''.dicom.tgz'')
         else if series_type = StrV ''T2''
           then Some (''anat/ABCD-T2_run-'' @ filename_suffix @ ''.dicom.tgz'')
         else if series_type = StrV ''dMRI''
           then Some (''dwi/ABCD-DTI_run-'' @ filename_suffix @ ''.dicom.tgz'')
         else if series_type = StrV ''dMRI_FM_AP''
           then Some (''fmap/ABCD-Diffusion-FM-'' @ last (split_on CHR ''_'' ''dMRI_FM_AP'')
                        @ ''_run-'' @ filename_suffix @ ''.dicom.tgz'')
         else if series_type = StrV ''dMRI_FM_PA''
           then Some (''fmap/ABCD-Diffusion-FM-'' @ last (split_on CHR ''_'' ''dMRI_FM_PA'')
                        @ ''_run-'' @ filename_suffix @ ''.dicom.tgz'')
         else if series_type = StrV ''fMRI_FM_AP''
           then Some (''fmap/ABCD-fMRI-FM-'' @ last (split_on CHR ''_'' ''fMRI_FM_AP'')
                        @ ''_run-'' @ filename_suffix @ ''.dicom.tgz'')
         else if series_type = StrV ''fMRI_FM_PA''
           then Some (''fmap/ABCD-fMRI-FM-'' @ last (split_on CHR ''_'' ''fMRI_FM_PA'')
                        @ ''_run-'' @ filename_suffix @ ''.dicom.tgz'')
         else if series_type = StrV ''fMRI_FM''
           then Some (''fmap/ABCD-fMRI-FM_run-'' @ filename_suffix @ ''.dicom.tgz'')
         else if series_type = StrV ''dMRI_FM''
           then Some (''fmap/ABCD-Diffusion-FM_run-'' @ filename_suffix @ ''.dicom.tgz'')
         else if series_type = StrV ''rsfMRI''
           then Some (''func/ABCD-rsfMRI_run-'' @ filename_suffix @ ''.dicom.tgz'')
         else if series_type = StrV ''fMRI_nBack_task''
           then Some (''func/ABCD-'' @ (split_on CHR ''_'' ''fMRI_nBack_task'' ! 1) @ ''-fMRI''
                        @ ''_run-'' @ filename_suffix @ ''.dicom.tgz'')
         else if series_type = StrV ''fMRI_MID_task''
           then Some (''func/ABCD-'' @ (split_on CHR ''_'' ''fMRI_MID_task'' ! 1) @ ''-fMRI''
                        @ ''_run-'' @ filename_suffix @ ''.dicom.tgz'')
         else if series_type = StrV ''fMRI_SST_task''
           then Some (''func/ABCD-'' @ (split_on CHR ''_'' ''fMRI_SST_task'' ! 1) @ ''-fMRI''
                        @ ''_run-'' @ filename_suffix @ ''.dicom.tgz'')
         else None);
        json_path = map_option (replace_all ''.dicom.tgz'' ''.json'') base_path;
        event_related_info_path =
          (if series_type \<in> set [StrV ''fMRI_nBack_task'', StrV ''fMRI_MID_task'',
                                 StrV ''fMRI_SST_task'']
           then map_option (replace_all ''.dicom.tgz'' ''-EventRelatedInformation.txt'') base_path
           else None)
      in case (base_path, json_path) of
           (Some b, Some j) \<Rightarrow>
             (case event_related_info_path of
                Some e \<Rightarrow> Some (b @ '';'' @ j @ '';'' @ e)
              | None \<Rightarrow> Some (b @ '';'' @ j))
         | _ \<Rightarrow> None)"

subsection \<open>The whole function\<close>


section \<open>Closed forms and example data used in the statements\<close>

text \<open>
  The pairing rule in the words of the specification: \<open>AP[i]\<close> goes with \<open>PA[i]\<close> for
  \<open>i\<close> below the smaller count, and a pair counts when both rows have a usability flag
  different from 0.
\<close>

definition both_usable :: "dataframe \<Rightarrow> dataframe \<Rightarrow> nat \<Rightarrow> bool" where
  "both_usable ap pa i = (ne_zero (usable (ap ! i)) \<and> ne_zero (usable (pa ! i)))"

definition index_pairs :: "dataframe \<Rightarrow> dataframe \<Rightarrow> dataframe" where
  "index_pairs ap pa =
     concat (map (\<lambda>i. [ap ! i, pa ! i])
       (filter (both_usable ap pa) [0..<min (length ap) (length pa)]))"

text \<open>The anatomical rows selected for one contrast: the NORM rows when there are any.\<close>

definition anat_choice :: "string \<Rightarrow> string \<Rightarrow> dataframe \<Rightarrow> dataframe" where
  "anat_choice norm_t plain_t passed =
     (if by_type norm_t passed \<noteq> [] then by_type norm_t passed else by_type plain_t passed)"

text \<open>The field maps the functional selector settles on, and the test that activates it.\<close>

definition func_fm_rows :: "dataframe \<Rightarrow> dataframe \<Rightarrow> dataframe" where
  "func_fm_rows all_group passed =
     (if by_type ''ABCD-fMRI-FM'' passed \<noteq> [] then by_type ''ABCD-fMRI-FM'' passed
      else if by_type ''ABCD-fMRI-FM-AP'' all_group = [] then []
      else index_pairs (by_type ''ABCD-fMRI-FM-AP'' all_group) (by_type ''ABCD-fMRI-FM-PA'' all_group))"

definition func_active :: "dataframe \<Rightarrow> bool" where
  "func_active passed = (\<exists>r \<in> set passed. SeriesType r \<in> set FUNC_TYPES)"

text \<open>The field maps of the diffusion selector once an AP row or a combined row exists.\<close>

definition dwi_fm_rows :: "dataframe \<Rightarrow> dataframe \<Rightarrow> dataframe" where
  "dwi_fm_rows all_group passed =
     (if by_type ''ABCD-Diffusion-FM'' passed \<noteq> [] then by_type ''ABCD-Diffusion-FM'' passed
      else index_pairs (by_type ''ABCD-Diffusion-FM-AP'' all_group)
             (by_type ''ABCD-Diffusion-FM-PA'' all_group))"

text \<open>Example data: a row of the session ses-00A of subject sub-ABC123, and empty counters.\<close>

definition mk_row :: "string \<Rightarrow> cell \<Rightarrow> string \<Rightarrow> qc_row" where
  "mk_row t u f =
     \<lparr>pGUID = ''sub-ABC123'', EventName = ''ses-00A'', SeriesType = t, usable = u,
      filename = Some f\<rparr>"

definition no_presence :: presence where
  "no_presence = \<lparr>has_t1 = 0, has_t2 = 0, has_sefm = 0, has_rsfmri = 0, has_mid = 0,
                   has_sst = 0, has_nback = 0, has_dti = 0\<rparr>"

definition no_totals :: totals where
  "no_totals = \<lparr>num_sub_visits = 0, num_t1 = 0, num_rsfmri = 0, num_sst = 0, num_mid = 0,
                 num_nback = 0, num_t2 = 0, num_dti = 0\<rparr>"

text \<open>The series types whose rows a selector can count.\<close>

definition SELECTED_TYPES :: "string list" where
  "SELECTED_TYPES = [''ABCD-T1-NORM'', ''ABCD-T1'', ''ABCD-T2-NORM'', ''ABCD-T2'',
                     ''ABCD-rsfMRI'', ''ABCD-MID-fMRI'', ''ABCD-nBack-fMRI'', ''ABCD-SST-fMRI'',
                     ''ABCD-DTI'']"


text \<open>A string of ASCII digits only.\<close>

definition is_digit :: "char \<Rightarrow> bool" where
  "is_digit c = (c \<in> set ''0123456789'')"

definition all_digits :: "string \<Rightarrow> bool" where
  "all_digits s = (\<forall>c \<in> set s. is_digit c)"



subsection \<open>The library functions on ASCII text, for the examples\<close>

text \<open>
  \<open>int(s)\<close> for a string of ASCII characters: surrounding whitespace is dropped, one sign
  may lead, and the digits may be grouped by single underscores. \<open>s.isnumeric()\<close> for such
  a string: not empty, digits only. Every string of the examples is ASCII text.
\<close>

definition digit_val :: "char \<Rightarrow> nat" where
  "digit_val c = of_char c - 48"

fun parse_digits :: "bool \<Rightarrow> nat \<Rightarrow> string \<Rightarrow> nat option" where
  "parse_digits after_digit acc [] = (if after_digit then Some acc else None)"
| "parse_digits after_digit acc (c # cs) =
     (if is_digit c then parse_digits True (10 * acc + digit_val c) cs
      else if c = CHR ''_'' \<and> after_digit then parse_digits False acc cs
      else None)"

definition ascii_int :: "string \<Rightarrow> int option" where
  "ascii_int s =
     (case strip s of
        [] \<Rightarrow> None
      | c # cs \<Rightarrow>
          if c = CHR ''-'' then map_option (\<lambda>n. - int n) (parse_digits False 0 cs)
          else if c = CHR ''+'' then map_option int (parse_digits False 0 cs)
          else map_option int (parse_digits False 0 (c # cs)))"

definition ascii_isnumeric :: "string \<Rightarrow> bool" where
  "ascii_isnumeric s = (s \<noteq> [] \<and> all_digits s)"

text \<open>
  \<open>str(x)\<close> for a float with a whole value below \<open>10 ^ 16\<close>, as in 20180101.0, and for
  an infinite float.
\<close>

definition whole_float_str :: "cell \<Rightarrow> string" where
  "whole_float_str x =
     (case x of FloatV r \<Rightarrow> py_str_int \<lfloor>r\<rfloor> @ ''.0'' | InfV \<Rightarrow> ''inf'' | _ \<Rightarrow> [])"

text \<open>
  A stable ascending sort on the four key columns, for keys that are text: strings are
  compared by their characters, and a missing key or path goes last.
\<close>

fun str_le :: "string \<Rightarrow> string \<Rightarrow> bool" where
  "str_le [] ys = True"
| "str_le (x # xs) [] = False"
| "str_le (x # xs) (y # ys) =
     ((of_char x :: nat) < of_char y \<or> (x = y \<and> str_le xs ys))"

fun key_le :: "cell \<Rightarrow> cell \<Rightarrow> bool" where
  "key_le (StrV a) (StrV b) = str_le a b"
| "key_le (StrV a) y = True"
| "key_le x (StrV b) = False"
| "key_le x y = True"

fun path_le :: "string option \<Rightarrow> string option \<Rightarrow> bool" where
  "path_le (Some a) (Some b) = str_le a b"
| "path_le (Some a) None = True"
| "path_le None (Some b) = False"
| "path_le None None = True"

definition row_le :: "reformatted_row \<Rightarrow> reformatted_row \<Rightarrow> bool" where
  "row_le a b =
     (let k1 = col_pGUID (source_row a); l1 = col_pGUID (source_row b);
          k2 = col_EventName (source_row a); l2 = col_EventName (source_row b);
          k3 = col_SeriesDescription (source_row a); l3 = col_SeriesDescription (source_row b)
      in if \<not> (key_le k1 l1 \<and> key_le l1 k1) then key_le k1 l1
         else if \<not> (key_le k2 l2 \<and> key_le l2 k2) then key_le k2 l2
         else if \<not> (key_le k3 l3 \<and> key_le l3 k3) then key_le k3 l3
         else path_le (file_path_col a) (file_path_col b))"

fun insort_by :: "('a \<Rightarrow> 'a \<Rightarrow> bool) \<Rightarrow> 'a \<Rightarrow> 'a list \<Rightarrow> 'a list" where
  "insort_by le x [] = [x]"
| "insort_by le x (y # ys) = (if le x y then x # y # ys else y # insort_by le x ys)"

definition sort_by :: "('a \<Rightarrow> 'a \<Rightarrow> bool) \<Rightarrow> 'a list \<Rightarrow> 'a list" where
  "sort_by le xs = foldr (insort_by le) xs []"

definition ascii_builtins :: builtins where
  "ascii_builtins =
     \<lparr>int_str = ascii_int, isnumeric = ascii_isnumeric, float_str = whole_float_str,
      sort_values = (\<lambda>df. Inr (sort_by row_le df)), empty_apply_raises = True\<rparr>"

text \<open>
  Example data: a complete, compliant row of the raw QC table, quoted as in the file,
  with its study date and series time.
\<close>

definition mk_fastqc :: "string \<Rightarrow> cell \<Rightarrow> cell \<Rightarrow> fastqc_row" where
  "mk_fastqc g d t =
     \<lparr>col_pGUID = StrV g, col_VisitID = StrV ''v1'', col_EventName = StrV ''00A'',
      col_SeriesType = StrV ''T1'', col_ABCD_Compliant = StrV ''Yes'',
      col_SeriesDescription = StrV ''ABCD-T1'', col_Completed = IntV 1, col_StudyDate = d,
      col_SeriesTime = t, col_QC = IntV 1, other_cells = []\<rparr>"

text \<open>A cell as the file has it, between double quotes.\<close>

definition quoted :: "string \<Rightarrow> string" where
  "quoted s = CHR 0x22 # s @ [CHR 0x22]"

section \<open>Facts about the selectors\<close>

lemma append_paths_eq: "append_paths file_paths df = file_paths @ map filename df"
proof -
  have "fold (\<lambda>p acc. acc @ [p]) xs acc = acc @ xs" for xs :: "string option list" and acc
    by (induction xs arbitrary: acc) simp_all
  then show ?thesis by (simp add: append_paths_def)
qed

lemma upper_range_eq: "upper_range ap pa = Inr (min (length ap) (length pa))"
  by (simp add: upper_range_def shape0_def min_def)

lemma pair_loop_eq:
  "\<forall>i \<in> set idx. i < length ap \<and> i < length pa \<Longrightarrow>
   pair_loop ap pa idx fm =
     Inr (fm @ concat (map (\<lambda>i. [ap ! i, pa ! i]) (filter (both_usable ap pa) idx)))"
  by (induction idx arbitrary: fm) (simp_all add: iloc_def both_usable_def)

lemma pair_fmaps_eq: "pair_fmaps ap pa fm = Inr (fm @ index_pairs ap pa)"
  by (simp add: pair_fmaps_def upper_range_eq pair_loop_eq index_pairs_def)

lemma index_pairs_take:
  "index_pairs (take (min (length ap) (length pa)) ap) (take (min (length ap) (length pa)) pa)
     = index_pairs ap pa"
proof -
  define n where "n = min (length ap) (length pa)"
  have len: "min (length (take n ap)) (length (take n pa)) = n"
    by (simp add: n_def)
  have a: "filter (both_usable (take n ap) (take n pa)) [0..<n] = filter (both_usable ap pa) [0..<n]"
    by (rule filter_cong) (simp_all add: both_usable_def)
  have b: "map (\<lambda>i. [take n ap ! i, take n pa ! i]) (filter (both_usable ap pa) [0..<n])
    = map (\<lambda>i. [ap ! i, pa ! i]) (filter (both_usable ap pa) [0..<n])"
    by (rule map_cong) simp_all
  have "index_pairs (take n ap) (take n pa) = index_pairs ap pa"
    unfolding index_pairs_def len a b by (simp only: n_def)
  then show ?thesis by (simp only: n_def)
qed

lemma index_pairs_Nil_iff:
  "index_pairs ap pa = [] \<longleftrightarrow> (\<forall>i < min (length ap) (length pa). \<not> both_usable ap pa i)"
  by (auto simp: index_pairs_def filter_empty_conv)

lemma length_index_pairs: "length (index_pairs ap pa) \<le> length ap + length pa"
proof -
  have "length (concat (map (\<lambda>i. [ap ! i, pa ! i]) xs)) = 2 * length xs" for xs
    by (induction xs) simp_all
  then have "length (index_pairs ap pa) = 2 * length (filter (both_usable ap pa) [0..<min (length ap) (length pa)])"
    by (simp add: index_pairs_def)
  also have "\<dots> \<le> 2 * length [0..<min (length ap) (length pa)]"
    using length_filter_le by (metis mult_le_mono2)
  also have "\<dots> \<le> length ap + length pa" by simp
  finally show ?thesis .
qed

lemma add_series_eq:
  "add_series t passed fps = (fps @ map filename (by_type t passed), shape0 (by_type t passed))"
  by (simp add: add_series_def Let_def append_paths_eq shape0_def)

lemma add_anat_paths_eq:
  "add_anat_paths passed fps =
     (fps @ map filename (anat_choice ''ABCD-T1-NORM'' ''ABCD-T1'' passed)
          @ map filename (anat_choice ''ABCD-T2-NORM'' ''ABCD-T2'' passed),
      shape0 (anat_choice ''ABCD-T1-NORM'' ''ABCD-T1'' passed),
      shape0 (anat_choice ''ABCD-T2-NORM'' ''ABCD-T2'' passed))"
  by (simp add: add_anat_paths_def Let_def append_paths_eq shape0_def anat_choice_def)

lemma func_fmaps_eq: "func_fmaps all_group passed = Inr (func_fm_rows all_group passed)"
  by (simp add: func_fmaps_def func_fm_rows_def Let_def pair_fmaps_eq)

lemma add_func_paths_eq:
  "add_func_paths all_group passed fps =
     Inr (if \<not> func_active passed then (fps, 0, 0, 0, 0, 0)
          else if func_fm_rows all_group passed = [] then (fps, 0, 10000, 10000, 10000, 10000)
          else (fps @ map filename (func_fm_rows all_group passed)
                    @ map filename (by_type ''ABCD-rsfMRI'' passed)
                    @ map filename (by_type ''ABCD-MID-fMRI'' passed)
                    @ map filename (by_type ''ABCD-SST-fMRI'' passed)
                    @ map filename (by_type ''ABCD-nBack-fMRI'' passed),
                shape0 (func_fm_rows all_group passed),
                shape0 (by_type ''ABCD-rsfMRI'' passed),
                shape0 (by_type ''ABCD-MID-fMRI'' passed),
                shape0 (by_type ''ABCD-SST-fMRI'' passed),
                shape0 (by_type ''ABCD-nBack-fMRI'' passed)))"
  by (simp add: add_func_paths_def func_fmaps_eq func_active_def list_ex_iff
      add_series_eq append_paths_eq Let_def)

lemma add_dwi_paths_eq:
  "add_dwi_paths all_group passed fps =
     Inr (if by_type ''ABCD-DTI'' passed = [] then (fps, 0)
          else if by_type ''ABCD-Diffusion-FM'' passed = []
                  \<and> by_type ''ABCD-Diffusion-FM-AP'' all_group = [] then (fps, 0)
          else if dwi_fm_rows all_group passed = [] then (fps, shape0 (by_type ''ABCD-DTI'' passed))
          else (fps @ map filename (by_type ''ABCD-DTI'' passed)
                    @ map filename (dwi_fm_rows all_group passed),
                shape0 (by_type ''ABCD-DTI'' passed)))"
proof -
  have ge1: "(1 \<le> shape0 df) = (df \<noteq> [])" for df
    by (cases df) (simp_all add: shape0_def)
  show ?thesis
    by (simp add: add_dwi_paths_def ge1 Let_def pair_fmaps_eq dwi_finish_def append_paths_eq
        dwi_fm_rows_def) (simp add: shape0_def)
qed

lemma mk_row_simps [simp]:
  "SeriesType (mk_row t u f) = t" "usable (mk_row t u f) = u"
  "filename (mk_row t u f) = Some f" "pGUID (mk_row t u f) = ''sub-ABC123''"
  "EventName (mk_row t u f) = ''ses-00A''"
  by (simp_all add: mk_row_def)

lemma tally_fields:
  "num_sub_visits (tally h t) = num_sub_visits t"
  "num_t1 (tally h t) = num_t1 t + (if has_t1 h \<noteq> 0 then 1 else 0)"
  "num_t2 (tally h t) = num_t2 t + (if has_t2 h \<noteq> 0 then 1 else 0)"
  "num_rsfmri (tally h t) = num_rsfmri t + (if has_rsfmri h \<noteq> 0 \<and> has_rsfmri h \<noteq> 10000 then 1 else 0)"
  "num_mid (tally h t) = num_mid t + (if has_mid h \<noteq> 0 \<and> has_mid h \<noteq> 10000 then 1 else 0)"
  "num_sst (tally h t) = num_sst t + (if has_sst h \<noteq> 0 \<and> has_sst h \<noteq> 10000 then 1 else 0)"
  "num_nback (tally h t) = num_nback t + (if has_nback h \<noteq> 0 \<and> has_nback h \<noteq> 10000 then 1 else 0)"
  "num_dti (tally h t) = num_dti t + (if has_dti h \<noteq> 0 then 1 else 0)"
  by (simp_all add: tally_def Let_def)

lemma tally_no_presence: "tally no_presence t = t"
  by (simp add: tally_def no_presence_def)

lemma by_type_pass_QC_Nil:
  assumes "\<forall>r \<in> set df. SeriesType r \<noteq> t"
  shows "by_type t (pass_QC df) = []"
  using assms by (simp add: by_type_def pass_QC_def filter_empty_conv)

lemma select_session_nothing:
  assumes "\<forall>r \<in> set sub_ses_df. SeriesType r \<notin> set SELECTED_TYPES"
  shows "select_session sub_ses_df modalities = Inr ([], no_presence)"
proof -
  have t: "by_type t (pass_QC sub_ses_df) = []" if "t \<in> set SELECTED_TYPES" for t
    using assms that by (intro by_type_pass_QC_Nil) auto
  have anat: "add_anat_paths (pass_QC sub_ses_df) [] = ([], 0, 0)"
    by (simp add: add_anat_paths_eq anat_choice_def t SELECTED_TYPES_def shape0_def)
  have "\<not> func_active (pass_QC sub_ses_df)"
    using assms by (auto simp: func_active_def pass_QC_def FUNC_TYPES_def SELECTED_TYPES_def)
  then have func: "add_func_paths sub_ses_df (pass_QC sub_ses_df) [] = Inr ([], 0, 0, 0, 0, 0)"
    by (simp add: add_func_paths_eq)
  have dwi: "add_dwi_paths sub_ses_df (pass_QC sub_ses_df) [] = Inr ([], 0)"
    by (simp add: add_dwi_paths_eq t SELECTED_TYPES_def)
  show ?thesis
    by (simp add: select_session_def Let_def anat func dwi no_presence_def)
qed

subsection \<open>Bounds on the counts\<close>

lemma length_two_filters:
  assumes "\<And>x. \<not> (P x \<and> Q x)"
  shows "length (filter P xs) + length (filter Q xs) \<le> length xs"
  using assms by (induction xs) auto

lemma length_by_type_le: "length (by_type t df) \<le> length df"
  by (simp add: by_type_def)

lemma length_pass_QC_le: "length (pass_QC df) \<le> length df"
  by (simp add: pass_QC_def)

lemma length_func_fm_rows: "length (func_fm_rows all_group (pass_QC all_group)) \<le> length all_group"
proof -
  have a: "length (by_type ''ABCD-fMRI-FM'' (pass_QC all_group)) \<le> length all_group"
    using length_by_type_le [of "''ABCD-fMRI-FM''" "pass_QC all_group"]
      length_pass_QC_le [of all_group] by linarith
  have "length (by_type ''ABCD-fMRI-FM-AP'' all_group) + length (by_type ''ABCD-fMRI-FM-PA'' all_group)
          \<le> length all_group"
    unfolding by_type_def by (rule length_two_filters) auto
  then have b: "length (index_pairs (by_type ''ABCD-fMRI-FM-AP'' all_group)
                  (by_type ''ABCD-fMRI-FM-PA'' all_group)) \<le> length all_group"
    using length_index_pairs [of "by_type ''ABCD-fMRI-FM-AP'' all_group"
        "by_type ''ABCD-fMRI-FM-PA'' all_group"] by linarith
  show ?thesis using a b by (simp add: func_fm_rows_def)
qed

lemma anat_choice_le: "length (anat_choice n p df) \<le> length df"
  by (simp add: anat_choice_def length_by_type_le)

lemma add_anat_bounds:
  "\<exists>p t1 t2. add_anat_paths (pass_QC df) fps = (p, t1, t2)
     \<and> 0 \<le> t1 \<and> t1 \<le> shape0 df \<and> 0 \<le> t2 \<and> t2 \<le> shape0 df"
proof -
  have "length (anat_choice n p (pass_QC df)) \<le> length df" for n p
    using anat_choice_le [of n p "pass_QC df"] length_pass_QC_le [of df] by linarith
  then show ?thesis by (simp add: add_anat_paths_eq shape0_def)
qed

lemma add_func_bounds:
  "\<exists>p sefm rs mid sst nb. add_func_paths df (pass_QC df) fps = Inr (p, sefm, rs, mid, sst, nb)
     \<and> 0 \<le> sefm \<and> sefm \<le> shape0 df"
  using length_func_fm_rows [of df] by (simp add: add_func_paths_eq shape0_def)

lemma add_dwi_bounds:
  "\<exists>p dti. add_dwi_paths df (pass_QC df) fps = Inr (p, dti) \<and> 0 \<le> dti \<and> dti \<le> shape0 df"
proof -
  have "length (by_type ''ABCD-DTI'' (pass_QC df)) \<le> length df"
    using length_by_type_le [of "''ABCD-DTI''" "pass_QC df"] length_pass_QC_le [of df] by linarith
  then show ?thesis by (simp add: add_dwi_paths_eq shape0_def)
qed

lemma select_session_bounds:
  "\<exists>paths h. select_session df modalities = Inr (paths, h)
     \<and> 0 \<le> has_t1 h \<and> has_t1 h \<le> shape0 df
     \<and> 0 \<le> has_t2 h \<and> has_t2 h \<le> shape0 df
     \<and> 0 \<le> has_sefm h \<and> has_sefm h \<le> shape0 df
     \<and> 0 \<le> has_dti h \<and> has_dti h \<le> shape0 df"
proof -
  have n: "0 \<le> shape0 df" by (simp add: shape0_def)
  obtain p1 t1 t2 where a:
    "(if ''anat'' \<in> set modalities then add_anat_paths (pass_QC df) [] else ([], 0, 0)) = (p1, t1, t2)"
    "0 \<le> t1" "t1 \<le> shape0 df" "0 \<le> t2" "t2 \<le> shape0 df"
    using add_anat_bounds [of df "[]"] n by (cases "''anat'' \<in> set modalities") auto
  obtain p2 sefm rs mid sst nb where f:
    "(if ''func'' \<in> set modalities then add_func_paths df (pass_QC df) p1
      else Inr (p1, 0, 0, 0, 0, 0)) = Inr (p2, sefm, rs, mid, sst, nb)"
    "0 \<le> sefm" "sefm \<le> shape0 df"
    using add_func_bounds [of df p1] n by (cases "''func'' \<in> set modalities") auto
  obtain p3 dti where d:
    "(if ''dwi'' \<in> set modalities then add_dwi_paths df (pass_QC df) p2 else Inr (p2, 0)) = Inr (p3, dti)"
    "0 \<le> dti" "dti \<le> shape0 df"
    using add_dwi_bounds [of df p2] n by (cases "''dwi'' \<in> set modalities") auto
  have "select_session df modalities =
          Inr (p3, \<lparr>has_t1 = t1, has_t2 = t2, has_sefm = sefm, has_rsfmri = rs,
                     has_mid = mid, has_sst = sst, has_nback = nb, has_dti = dti\<rparr>)"
    unfolding select_session_def Let_def a(1) by (simp add: f(1) d(1))
  with a f d show ?thesis by simp
qed

section \<open>Facts about the normalizer\<close>

declare str_nat.simps [simp del]
































lemma required_columns_simps [simp]:
  "col_SeriesTime (required_columns r) = col_SeriesTime r"
  "col_StudyDate (required_columns r) = col_StudyDate r"
  "col_SeriesType (required_columns r) = col_SeriesType r"
  by (simp_all add: required_columns_def)










subsection \<open>The examples, run\<close>

declare replace_all.simps [simp del]

lemma strip_quote_quoted_93015: "strip_quote (quoted ''93015'') = ''93015''"
  by (simp add: strip_quote_def quoted_def)

lemma strip_quote_quoted_date: "strip_quote (quoted ''20180101'') = ''20180101''"
  by (simp add: strip_quote_def quoted_def)

lemma strip_quote_plain:
  "strip_quote ''s1'' = ''s1''" "strip_quote ''v1'' = ''v1''" "strip_quote ''00A'' = ''00A''"
  "strip_quote ''T1'' = ''T1''" "strip_quote ''Yes'' = ''Yes''" "strip_quote ''ABCD-T1'' = ''ABCD-T1''"
  "strip_quote ''abc'' = ''abc''" "strip_quote ''s2'' = ''s2''"
  by (simp_all add: strip_quote_def)

lemma ascii_int_93015: "ascii_int ''93015'' = Some 93015"
  by (simp add: ascii_int_def strip_def is_space_def is_digit_def digit_val_def)

lemma ascii_int_date: "ascii_int ''20180101'' = Some 20180101"
  by (simp add: ascii_int_def strip_def is_space_def is_digit_def digit_val_def)


lemma isnumeric_examples:
  "ascii_isnumeric ''93015''" "ascii_isnumeric ''20180101''"
  "\<not> ascii_isnumeric ''s1''" "\<not> ascii_isnumeric ''v1''" "\<not> ascii_isnumeric ''00A''"
  "\<not> ascii_isnumeric ''T1''" "\<not> ascii_isnumeric ''Yes''" "\<not> ascii_isnumeric ''ABCD-T1''"
  "\<not> ascii_isnumeric ''abc''" "\<not> ascii_isnumeric ''s2''"
  by (simp_all add: ascii_isnumeric_def all_digits_def is_digit_def)

lemma clean_good:
  "clean_table ascii_builtins
     [mk_fastqc ''s1'' (StrV (quoted ''20180101'')) (StrV (quoted ''93015''))]
   = Inr [mk_fastqc ''s1'' (IntV 20180101) (IntV 93015)]"
  by (simp add: clean_table_def applymap_def cells_of_def map_cells_def mk_fastqc_def
      ascii_builtins_def strip_quote_plain strip_quote_quoted_93015 strip_quote_quoted_date
      isnumeric_examples ascii_int_93015 ascii_int_date)




lemma path_example:
  "determine_file_path (StrV ''T1'') ''20180101093015''
     = Some ''anat/ABCD-T1_run-20180101093015.dicom.tgz;anat/ABCD-T1_run-20180101093015.json''"
  by (simp add: determine_file_path_def replace_all.simps)









lemma required_mk_fastqc [simp]: "required_columns (mk_fastqc g d t) = mk_fastqc g d t"
  by (simp add: required_columns_def mk_fastqc_def)

lemma mk_fastqc_simps [simp]:
  "col_SeriesTime (mk_fastqc g d t) = t" "col_StudyDate (mk_fastqc g d t) = d"
  "col_SeriesType (mk_fastqc g d t) = StrV ''T1''" "keep_row (mk_fastqc g d t)"
  "col_pGUID (mk_fastqc g d t) = StrV g" "col_EventName (mk_fastqc g d t) = StrV ''00A''"
  "col_SeriesDescription (mk_fastqc g d t) = StrV ''ABCD-T1''"
  by (simp_all add: mk_fastqc_def keep_row_def)















section \<open>The claims\<close>

subsection \<open>C1\<close>

text \<open>
  Claim C1. Let a rest or task series (rsfMRI, MID, SST or nBack) pass QC and no combined
  fMRI-FM row pass QC. If the unfiltered slice has no fMRI-FM-AP row, or no index
  \<open>i\<close> below the smaller of the AP and PA counts has both \<open>AP[i]\<close> and \<open>PA[i]\<close>
  usable, then \<open>add_func_paths\<close> returns the path list unchanged, SEFM count 0 and the
  value 10000 for each of the rsfMRI, MID, SST and nBack counts.
\<close>

theorem func_sentinel_without_fieldmap:
  assumes "\<exists>r \<in> set passed. SeriesType r \<in>
             {''ABCD-rsfMRI'', ''ABCD-MID-fMRI'', ''ABCD-SST-fMRI'', ''ABCD-nBack-fMRI''}"
    and "by_type ''ABCD-fMRI-FM'' passed = []"
    and "by_type ''ABCD-fMRI-FM-AP'' all_group = [] \<or>
         (\<forall>i < min (length (by_type ''ABCD-fMRI-FM-AP'' all_group))
                    (length (by_type ''ABCD-fMRI-FM-PA'' all_group)).
            \<not> (ne_zero (usable (by_type ''ABCD-fMRI-FM-AP'' all_group ! i)) \<and>
               ne_zero (usable (by_type ''ABCD-fMRI-FM-PA'' all_group ! i))))"
  shows "add_func_paths all_group passed fps = Inr (fps, 0, 10000, 10000, 10000, 10000)"
proof -
  have act: "func_active passed"
    using assms(1) by (auto simp: func_active_def FUNC_TYPES_def)
  have "func_fm_rows all_group passed = []"
    using assms(2,3) by (auto simp: func_fm_rows_def index_pairs_Nil_iff both_usable_def)
  with act show ?thesis by (simp add: add_func_paths_eq)
qed

theorem func_sentinel_without_fieldmap_witness:
  "add_func_paths
     [mk_row ''ABCD-T1'' (IntV 1) ''t1'', mk_row ''ABCD-rsfMRI'' (IntV 1) ''rs'',
      mk_row ''ABCD-fMRI-FM-AP'' (IntV 1) ''ap'']
     [mk_row ''ABCD-T1'' (IntV 1) ''t1'', mk_row ''ABCD-rsfMRI'' (IntV 1) ''rs'',
      mk_row ''ABCD-fMRI-FM-AP'' (IntV 1) ''ap'']
     [Some ''t1''] = Inr ([Some ''t1''], 0, 10000, 10000, 10000, 10000)"
  by (rule func_sentinel_without_fieldmap) (simp_all add: by_type_def)

subsection \<open>C2\<close>

text \<open>
  Claim C2, as the code has it. With at least one passing DTI row, \<open>add_dwi_paths\<close>
  returns the number of passing DTI rows as the DTI count whenever a combined
  Diffusion-FM row passes QC or the unfiltered slice has a Diffusion-FM-AP row. When
  neither is the case it returns the count 0 and the paths unchanged. When AP rows exist but
  no index pair has both members usable, the count is the number of passing DTI rows and
  no path is added; no value stands for an exclusion. With a field map found, the DTI paths
  and then the field-map paths are appended.
\<close>

theorem dwi_count_and_paths:
  assumes "by_type ''ABCD-DTI'' passed \<noteq> []"
  shows
    "(by_type ''ABCD-Diffusion-FM'' passed \<noteq> [] \<longrightarrow>
        add_dwi_paths all_group passed fps =
          Inr (fps @ map filename (by_type ''ABCD-DTI'' passed)
                   @ map filename (by_type ''ABCD-Diffusion-FM'' passed),
               shape0 (by_type ''ABCD-DTI'' passed)))
   \<and> (by_type ''ABCD-Diffusion-FM'' passed = [] \<and> by_type ''ABCD-Diffusion-FM-AP'' all_group = [] \<longrightarrow>
        add_dwi_paths all_group passed fps = Inr (fps, 0))
   \<and> (by_type ''ABCD-Diffusion-FM'' passed = [] \<and> by_type ''ABCD-Diffusion-FM-AP'' all_group \<noteq> [] \<and>
      (\<forall>i < min (length (by_type ''ABCD-Diffusion-FM-AP'' all_group))
                 (length (by_type ''ABCD-Diffusion-FM-PA'' all_group)).
         \<not> both_usable (by_type ''ABCD-Diffusion-FM-AP'' all_group)
                        (by_type ''ABCD-Diffusion-FM-PA'' all_group) i) \<longrightarrow>
        add_dwi_paths all_group passed fps = Inr (fps, shape0 (by_type ''ABCD-DTI'' passed)))
   \<and> (by_type ''ABCD-Diffusion-FM'' passed = [] \<and>
      (\<exists>i < min (length (by_type ''ABCD-Diffusion-FM-AP'' all_group))
                 (length (by_type ''ABCD-Diffusion-FM-PA'' all_group)).
         both_usable (by_type ''ABCD-Diffusion-FM-AP'' all_group)
                     (by_type ''ABCD-Diffusion-FM-PA'' all_group) i) \<longrightarrow>
        add_dwi_paths all_group passed fps =
          Inr (fps @ map filename (by_type ''ABCD-DTI'' passed)
                   @ map filename (index_pairs (by_type ''ABCD-Diffusion-FM-AP'' all_group)
                                               (by_type ''ABCD-Diffusion-FM-PA'' all_group)),
               shape0 (by_type ''ABCD-DTI'' passed)))"
proof (intro conjI impI)
  assume "by_type ''ABCD-Diffusion-FM'' passed \<noteq> []"
  with assms show "add_dwi_paths all_group passed fps =
          Inr (fps @ map filename (by_type ''ABCD-DTI'' passed)
                   @ map filename (by_type ''ABCD-Diffusion-FM'' passed),
               shape0 (by_type ''ABCD-DTI'' passed))"
    by (simp add: add_dwi_paths_eq dwi_fm_rows_def)
next
  assume "by_type ''ABCD-Diffusion-FM'' passed = [] \<and> by_type ''ABCD-Diffusion-FM-AP'' all_group = []"
  with assms show "add_dwi_paths all_group passed fps = Inr (fps, 0)"
    by (simp add: add_dwi_paths_eq)
next
  assume a: "by_type ''ABCD-Diffusion-FM'' passed = [] \<and> by_type ''ABCD-Diffusion-FM-AP'' all_group \<noteq> [] \<and>
      (\<forall>i < min (length (by_type ''ABCD-Diffusion-FM-AP'' all_group))
                 (length (by_type ''ABCD-Diffusion-FM-PA'' all_group)).
         \<not> both_usable (by_type ''ABCD-Diffusion-FM-AP'' all_group)
                        (by_type ''ABCD-Diffusion-FM-PA'' all_group) i)"
  then have "dwi_fm_rows all_group passed = []"
    by (simp add: dwi_fm_rows_def index_pairs_Nil_iff)
  with assms a show "add_dwi_paths all_group passed fps = Inr (fps, shape0 (by_type ''ABCD-DTI'' passed))"
    by (simp add: add_dwi_paths_eq)
next
  assume a: "by_type ''ABCD-Diffusion-FM'' passed = [] \<and>
      (\<exists>i < min (length (by_type ''ABCD-Diffusion-FM-AP'' all_group))
                 (length (by_type ''ABCD-Diffusion-FM-PA'' all_group)).
         both_usable (by_type ''ABCD-Diffusion-FM-AP'' all_group)
                     (by_type ''ABCD-Diffusion-FM-PA'' all_group) i)"
  then have ne: "index_pairs (by_type ''ABCD-Diffusion-FM-AP'' all_group)
                     (by_type ''ABCD-Diffusion-FM-PA'' all_group) \<noteq> []"
    by (simp add: index_pairs_Nil_iff)
  from a have ap: "by_type ''ABCD-Diffusion-FM-AP'' all_group \<noteq> []"
    by auto
  from assms a ne ap show "add_dwi_paths all_group passed fps =
          Inr (fps @ map filename (by_type ''ABCD-DTI'' passed)
                   @ map filename (index_pairs (by_type ''ABCD-Diffusion-FM-AP'' all_group)
                                               (by_type ''ABCD-Diffusion-FM-PA'' all_group)),
               shape0 (by_type ''ABCD-DTI'' passed))"
    by (simp add: add_dwi_paths_eq dwi_fm_rows_def)
qed

theorem dwi_count_and_paths_witness:
  "add_dwi_paths
     [mk_row ''ABCD-DTI'' (IntV 1) ''dti'', mk_row ''ABCD-Diffusion-FM-AP'' (IntV 0) ''ap'',
      mk_row ''ABCD-Diffusion-FM-PA'' (IntV 1) ''pa'']
     [mk_row ''ABCD-DTI'' (IntV 1) ''dti'', mk_row ''ABCD-Diffusion-FM-PA'' (IntV 1) ''pa'']
     [] = Inr ([], 1)"
  using dwi_count_and_paths
    [of "[mk_row ''ABCD-DTI'' (IntV 1) ''dti'', mk_row ''ABCD-Diffusion-FM-PA'' (IntV 1) ''pa'']"
        "[mk_row ''ABCD-DTI'' (IntV 1) ''dti'', mk_row ''ABCD-Diffusion-FM-AP'' (IntV 0) ''ap'',
          mk_row ''ABCD-Diffusion-FM-PA'' (IntV 1) ''pa'']" "[]"]
  by (simp add: by_type_def both_usable_def shape0_def)

text \<open>
  One usable DTI row and no diffusion field map at all: the DTI count returned is 0, though
  one DTI row passes QC.
\<close>

theorem dwi_count_zero_without_ap_counterexample:
  "add_dwi_paths [mk_row ''ABCD-DTI'' (IntV 1) ''dti''] [mk_row ''ABCD-DTI'' (IntV 1) ''dti''] []
     = Inr ([], 0)
   \<and> shape0 (by_type ''ABCD-DTI'' [mk_row ''ABCD-DTI'' (IntV 1) ''dti'']) = 1"
  by (simp add: add_dwi_paths_eq by_type_def shape0_def)

subsection \<open>C3\<close>

text \<open>
  Claim C3. On every QC-passing slice, \<open>add_anat_paths\<close> selects exactly the T1-NORM rows
  when there is one, and the plain T1 rows otherwise; the T1 count is the number of selected
  rows, and their paths are the ones appended. The same holds for T2-NORM and T2,
  independently.
\<close>

theorem anat_norm_preferred:
  "\<exists>t1_rows t2_rows.
     add_anat_paths passed fps =
       (fps @ map filename t1_rows @ map filename t2_rows,
        int (length t1_rows), int (length t2_rows))
     \<and> t1_rows = (if by_type ''ABCD-T1-NORM'' passed \<noteq> [] then by_type ''ABCD-T1-NORM'' passed
                  else by_type ''ABCD-T1'' passed)
     \<and> t2_rows = (if by_type ''ABCD-T2-NORM'' passed \<noteq> [] then by_type ''ABCD-T2-NORM'' passed
                  else by_type ''ABCD-T2'' passed)"
  by (simp add: add_anat_paths_eq anat_choice_def shape0_def)

theorem anat_norm_preferred_witness:
  "add_anat_paths
     [mk_row ''ABCD-T1'' (IntV 1) ''t1'', mk_row ''ABCD-T1-NORM'' (IntV 1) ''t1n'',
      mk_row ''ABCD-T2'' (IntV 1) ''t2'']
     [] = ([Some ''t1n'', Some ''t2''], 1, 1)"
  using anat_norm_preferred
    [of "[mk_row ''ABCD-T1'' (IntV 1) ''t1'', mk_row ''ABCD-T1-NORM'' (IntV 1) ''t1n'',
          mk_row ''ABCD-T2'' (IntV 1) ''t2'']" "[]"]
  by (simp add: by_type_def)

subsection \<open>C4\<close>

text \<open>
  Claim C4. When no combined fMRI-FM row passes QC and the unfiltered slice has an
  fMRI-FM-AP row, the field maps selected are those of the pairing step on the AP and PA
  rows of the unfiltered slice. The pairing step visits exactly the indices 0 up to, not
  including, the smaller of the numbers of AP and PA candidates; the rows \<open>AP[i]\<close> and
  \<open>PA[i]\<close> are added, in this order, if and only if both have a usability flag different
  from 0. Candidates beyond the smaller count play no part: dropping them leaves the result
  unchanged. No index is out of range, so the step never raises.
\<close>

theorem pairing_by_index:
  "pair_fmaps ap pa fm =
     Inr (fm @ concat (map (\<lambda>i. [ap ! i, pa ! i])
        (filter (\<lambda>i. ne_zero (usable (ap ! i)) \<and> ne_zero (usable (pa ! i)))
           [0..<min (length ap) (length pa)])))
   \<and> pair_fmaps (take (min (length ap) (length pa)) ap) (take (min (length ap) (length pa)) pa) fm
       = pair_fmaps ap pa fm
   \<and> (by_type ''ABCD-fMRI-FM'' passed = [] \<and> by_type ''ABCD-fMRI-FM-AP'' all_group \<noteq> [] \<longrightarrow>
        func_fmaps all_group passed =
          pair_fmaps (by_type ''ABCD-fMRI-FM-AP'' all_group)
                     (by_type ''ABCD-fMRI-FM-PA'' all_group) [])"
proof -
  have "both_usable ap pa = (\<lambda>i. ne_zero (usable (ap ! i)) \<and> ne_zero (usable (pa ! i)))"
    by (rule ext) (simp add: both_usable_def)
  then have "pair_fmaps ap pa fm =
     Inr (fm @ concat (map (\<lambda>i. [ap ! i, pa ! i])
        (filter (\<lambda>i. ne_zero (usable (ap ! i)) \<and> ne_zero (usable (pa ! i)))
           [0..<min (length ap) (length pa)])))"
    by (simp add: pair_fmaps_eq index_pairs_def)
  moreover have "pair_fmaps (take (min (length ap) (length pa)) ap)
                   (take (min (length ap) (length pa)) pa) fm = pair_fmaps ap pa fm"
    using index_pairs_take [of ap pa] by (simp only: pair_fmaps_eq)
  moreover have "by_type ''ABCD-fMRI-FM'' passed = [] \<and> by_type ''ABCD-fMRI-FM-AP'' all_group \<noteq> [] \<longrightarrow>
        func_fmaps all_group passed =
          pair_fmaps (by_type ''ABCD-fMRI-FM-AP'' all_group)
                     (by_type ''ABCD-fMRI-FM-PA'' all_group) []"
    by (simp add: func_fmaps_def Let_def)
  ultimately show ?thesis by blast
qed

theorem pairing_by_index_witness:
  "func_fmaps
     [mk_row ''ABCD-rsfMRI'' (IntV 1) ''rs'',
      mk_row ''ABCD-fMRI-FM-AP'' (IntV 1) ''ap0'', mk_row ''ABCD-fMRI-FM-AP'' (IntV 0) ''ap1'',
      mk_row ''ABCD-fMRI-FM-AP'' (IntV 1) ''ap2'',
      mk_row ''ABCD-fMRI-FM-PA'' (IntV 1) ''pa0'', mk_row ''ABCD-fMRI-FM-PA'' (IntV 1) ''pa1'',
      mk_row ''ABCD-fMRI-FM-PA'' (IntV 1) ''pa2'', mk_row ''ABCD-fMRI-FM-PA'' (IntV 1) ''pa3'',
      mk_row ''ABCD-fMRI-FM-PA'' (IntV 1) ''pa4'']
     [mk_row ''ABCD-rsfMRI'' (IntV 1) ''rs'']
   = Inr [mk_row ''ABCD-fMRI-FM-AP'' (IntV 1) ''ap0'', mk_row ''ABCD-fMRI-FM-PA'' (IntV 1) ''pa0'',
          mk_row ''ABCD-fMRI-FM-AP'' (IntV 1) ''ap2'', mk_row ''ABCD-fMRI-FM-PA'' (IntV 1) ''pa2'']"
proof -
  have upt3: "[0..<3] = [0, 1, 2]" by (simp add: upt_rec)
  have ap: "by_type ''ABCD-fMRI-FM-AP''
     [mk_row ''ABCD-rsfMRI'' (IntV 1) ''rs'',
      mk_row ''ABCD-fMRI-FM-AP'' (IntV 1) ''ap0'', mk_row ''ABCD-fMRI-FM-AP'' (IntV 0) ''ap1'',
      mk_row ''ABCD-fMRI-FM-AP'' (IntV 1) ''ap2'',
      mk_row ''ABCD-fMRI-FM-PA'' (IntV 1) ''pa0'', mk_row ''ABCD-fMRI-FM-PA'' (IntV 1) ''pa1'',
      mk_row ''ABCD-fMRI-FM-PA'' (IntV 1) ''pa2'', mk_row ''ABCD-fMRI-FM-PA'' (IntV 1) ''pa3'',
      mk_row ''ABCD-fMRI-FM-PA'' (IntV 1) ''pa4'']
     = [mk_row ''ABCD-fMRI-FM-AP'' (IntV 1) ''ap0'', mk_row ''ABCD-fMRI-FM-AP'' (IntV 0) ''ap1'',
        mk_row ''ABCD-fMRI-FM-AP'' (IntV 1) ''ap2'']"
    by (simp add: by_type_def)
  have pa: "by_type ''ABCD-fMRI-FM-PA''
     [mk_row ''ABCD-rsfMRI'' (IntV 1) ''rs'',
      mk_row ''ABCD-fMRI-FM-AP'' (IntV 1) ''ap0'', mk_row ''ABCD-fMRI-FM-AP'' (IntV 0) ''ap1'',
      mk_row ''ABCD-fMRI-FM-AP'' (IntV 1) ''ap2'',
      mk_row ''ABCD-fMRI-FM-PA'' (IntV 1) ''pa0'', mk_row ''ABCD-fMRI-FM-PA'' (IntV 1) ''pa1'',
      mk_row ''ABCD-fMRI-FM-PA'' (IntV 1) ''pa2'', mk_row ''ABCD-fMRI-FM-PA'' (IntV 1) ''pa3'',
      mk_row ''ABCD-fMRI-FM-PA'' (IntV 1) ''pa4'']
     = [mk_row ''ABCD-fMRI-FM-PA'' (IntV 1) ''pa0'', mk_row ''ABCD-fMRI-FM-PA'' (IntV 1) ''pa1'',
        mk_row ''ABCD-fMRI-FM-PA'' (IntV 1) ''pa2'', mk_row ''ABCD-fMRI-FM-PA'' (IntV 1) ''pa3'',
        mk_row ''ABCD-fMRI-FM-PA'' (IntV 1) ''pa4'']"
    by (simp add: by_type_def)
  have fm: "by_type ''ABCD-fMRI-FM'' [mk_row ''ABCD-rsfMRI'' (IntV 1) ''rs''] = []"
    by (simp add: by_type_def)
  show ?thesis
    using pairing_by_index
      [of "[mk_row ''ABCD-fMRI-FM-AP'' (IntV 1) ''ap0'', mk_row ''ABCD-fMRI-FM-AP'' (IntV 0) ''ap1'',
            mk_row ''ABCD-fMRI-FM-AP'' (IntV 1) ''ap2'']"
          "[mk_row ''ABCD-fMRI-FM-PA'' (IntV 1) ''pa0'', mk_row ''ABCD-fMRI-FM-PA'' (IntV 1) ''pa1'',
            mk_row ''ABCD-fMRI-FM-PA'' (IntV 1) ''pa2'', mk_row ''ABCD-fMRI-FM-PA'' (IntV 1) ''pa3'',
            mk_row ''ABCD-fMRI-FM-PA'' (IntV 1) ''pa4'']" "[]"
          "[mk_row ''ABCD-rsfMRI'' (IntV 1) ''rs'']"
          "[mk_row ''ABCD-rsfMRI'' (IntV 1) ''rs'',
            mk_row ''ABCD-fMRI-FM-AP'' (IntV 1) ''ap0'', mk_row ''ABCD-fMRI-FM-AP'' (IntV 0) ''ap1'',
            mk_row ''ABCD-fMRI-FM-AP'' (IntV 1) ''ap2'',
            mk_row ''ABCD-fMRI-FM-PA'' (IntV 1) ''pa0'', mk_row ''ABCD-fMRI-FM-PA'' (IntV 1) ''pa1'',
            mk_row ''ABCD-fMRI-FM-PA'' (IntV 1) ''pa2'', mk_row ''ABCD-fMRI-FM-PA'' (IntV 1) ''pa3'',
            mk_row ''ABCD-fMRI-FM-PA'' (IntV 1) ''pa4'']"]
    by (simp add: ap pa fm upt3)
qed

subsection \<open>C5\<close>




subsection \<open>C6\<close>




subsection \<open>C7\<close>

text \<open>
  Claim C7, as the code has it. The rsfMRI, MID, SST and nBack totals grow by one if and
  only if the count is neither 0 nor 10000. The T1, T2 and DTI totals grow by one if and
  only if the count is not 0: they are not tested against 10000. The number of subject
  visits is not touched by the tally.
\<close>

theorem tally_increments:
  "num_t1 (tally h t) = num_t1 t + (if has_t1 h \<noteq> 0 then 1 else 0)
   \<and> num_t2 (tally h t) = num_t2 t + (if has_t2 h \<noteq> 0 then 1 else 0)
   \<and> num_dti (tally h t) = num_dti t + (if has_dti h \<noteq> 0 then 1 else 0)
   \<and> num_rsfmri (tally h t) =
       num_rsfmri t + (if has_rsfmri h \<noteq> 0 \<and> has_rsfmri h \<noteq> 10000 then 1 else 0)
   \<and> num_mid (tally h t) = num_mid t + (if has_mid h \<noteq> 0 \<and> has_mid h \<noteq> 10000 then 1 else 0)
   \<and> num_sst (tally h t) = num_sst t + (if has_sst h \<noteq> 0 \<and> has_sst h \<noteq> 10000 then 1 else 0)
   \<and> num_nback (tally h t) =
       num_nback t + (if has_nback h \<noteq> 0 \<and> has_nback h \<noteq> 10000 then 1 else 0)
   \<and> num_sub_visits (tally h t) = num_sub_visits t"
  by (simp add: tally_fields)

theorem tally_increments_witness:
  "tally \<lparr>has_t1 = 1, has_t2 = 0, has_sefm = 0, has_rsfmri = 10000, has_mid = 10000,
          has_sst = 10000, has_nback = 10000, has_dti = 2\<rparr> no_totals
   = no_totals\<lparr>num_t1 := 1, num_dti := 1\<rparr>"
  using tally_increments
    [of "\<lparr>has_t1 = 1, has_t2 = 0, has_sefm = 0, has_rsfmri = 10000, has_mid = 10000,
          has_sst = 10000, has_nback = 10000, has_dti = 2\<rparr>" no_totals]
  by (simp add: no_totals_def)

text \<open>
  A T1 count of 10000, or a DTI count of 10000, is tallied.
\<close>

theorem tally_counts_t1_at_10000_counterexample:
  "num_t1 (tally (no_presence\<lparr>has_t1 := 10000\<rparr>) no_totals) = num_t1 no_totals + 1
   \<and> num_dti (tally (no_presence\<lparr>has_dti := 10000\<rparr>) no_totals) = num_dti no_totals + 1"
  by (simp add: tally_fields no_presence_def)

subsection \<open>C8\<close>

text \<open>
  Claim C8. When the slice of a (subject, session) has no row of an anatomical, functional
  or diffusion series type, the iteration still produces its manifest row, with the eight
  counts 0; no path is selected, nothing is written to the missing-files log, and only the
  number of subject visits changes in the totals. This holds for every choice of
  modalities and whatever the storage answers.
\<close>

theorem empty_session_manifest:
  assumes "\<forall>r \<in> set series_df.
             pGUID r = ''sub-'' @ sub \<and> EventName r = ''ses-'' @ bids_year \<longrightarrow>
             SeriesType r \<notin> {''ABCD-T1-NORM'', ''ABCD-T1'', ''ABCD-T2-NORM'', ''ABCD-T2'',
                ''ABCD-rsfMRI'', ''ABCD-MID-fMRI'', ''ABCD-nBack-fMRI'', ''ABCD-SST-fMRI'',
                ''ABCD-DTI''}"
  shows "process_session s3_ls s3_get s3_bucket download_dir series_df modalities sub bids_year t =
           Inr \<lparr>manifest_row =
                  (''sub-'' @ sub, ''ses-'' @ bids_year,
                   \<lparr>has_t1 = 0, has_t2 = 0, has_sefm = 0, has_rsfmri = 0, has_mid = 0,
                    has_sst = 0, has_nback = 0, has_dti = 0\<rparr>),
                selected = [],
                new_totals = t\<lparr>num_sub_visits := num_sub_visits t + 1\<rparr>,
                missing = []\<rparr>"
proof -
  have "\<forall>r \<in> set (sub_ses series_df (''sub-'' @ sub) (''ses-'' @ bids_year)).
          SeriesType r \<notin> set SELECTED_TYPES"
    using assms by (auto simp: sub_ses_def SELECTED_TYPES_def)
  then have "select_session (sub_ses series_df (''sub-'' @ sub) (''ses-'' @ bids_year)) modalities
               = Inr ([], no_presence)"
    by (rule select_session_nothing)
  then show ?thesis
    by (simp add: process_session_def Let_def tally_no_presence) (simp add: no_presence_def)
qed

theorem empty_session_manifest_witness:
  "process_session (\<lambda>p. False) (\<lambda>p d. False) ''s3://bucket'' ''./new_download''
     [mk_row ''ABCD-fMRI-FM-AP'' (IntV 1) ''ap''] [''anat'', ''func'', ''dwi''] ''ABC123'' ''00A''
     no_totals
   = Inr \<lparr>manifest_row = (''sub-ABC123'', ''ses-00A'', no_presence), selected = [],
          new_totals = no_totals\<lparr>num_sub_visits := 1\<rparr>, missing = []\<rparr>"
  using empty_session_manifest
    [of "[mk_row ''ABCD-fMRI-FM-AP'' (IntV 1) ''ap'']" "''ABC123''" "''00A''"
        "\<lambda>p. False" "\<lambda>p d. False" "''s3://bucket''" "''./new_download''"
        "[''anat'', ''func'', ''dwi'']" no_totals]
  by (simp add: no_presence_def no_totals_def)

subsection \<open>C9\<close>

text \<open>
  Claim C9. Each of the three selectors returns a path list that starts with the list it
  was given; the functional and diffusion selectors always return.
\<close>

theorem selectors_only_append:
  "prefix fps (fst (add_anat_paths passed fps))
   \<and> (\<exists>r. add_func_paths all_group passed fps = Inr r \<and> prefix fps (fst r))
   \<and> (\<exists>r. add_dwi_paths all_group passed fps = Inr r \<and> prefix fps (fst r))"
  by (simp add: add_anat_paths_eq add_func_paths_eq add_dwi_paths_eq)

theorem selectors_only_append_witness:
  "prefix [Some ''x'']
     (fst (add_anat_paths [mk_row ''ABCD-T1'' (IntV 1) ''t1''] [Some ''x'']))"
  using selectors_only_append [of "[Some ''x'']" "[mk_row ''ABCD-T1'' (IntV 1) ''t1'']" "[]"]
  by simp

subsection \<open>C10\<close>

text \<open>
  Claim C10, as the code has it. For every slice and every choice of modalities the three
  selectors return, and the T1, T2, SEFM and DTI counts lie between 0 and the number of
  rows of the slice. So in a slice with fewer than 10000 rows none of them is 10000, and
  the T1, T2 and DTI totals grow exactly when the count is a positive number below 10000.
  The value 10000 as an exclusion mark is returned for the four functional counts only.
\<close>

theorem counts_bounded_by_rows:
  "\<exists>paths h. select_session sub_ses_df modalities = Inr (paths, h)
     \<and> 0 \<le> has_t1 h \<and> has_t1 h \<le> shape0 sub_ses_df
     \<and> 0 \<le> has_t2 h \<and> has_t2 h \<le> shape0 sub_ses_df
     \<and> 0 \<le> has_sefm h \<and> has_sefm h \<le> shape0 sub_ses_df
     \<and> 0 \<le> has_dti h \<and> has_dti h \<le> shape0 sub_ses_df
     \<and> (shape0 sub_ses_df < 10000 \<longrightarrow>
          has_t1 h \<noteq> 10000 \<and> has_t2 h \<noteq> 10000 \<and> has_sefm h \<noteq> 10000 \<and> has_dti h \<noteq> 10000
          \<and> (num_t1 (tally h t) = num_t1 t + 1 \<longleftrightarrow> 0 < has_t1 h \<and> has_t1 h < 10000)
          \<and> (num_t2 (tally h t) = num_t2 t + 1 \<longleftrightarrow> 0 < has_t2 h \<and> has_t2 h < 10000)
          \<and> (num_dti (tally h t) = num_dti t + 1 \<longleftrightarrow> 0 < has_dti h \<and> has_dti h < 10000))"
proof -
  obtain paths h where s: "select_session sub_ses_df modalities = Inr (paths, h)"
    and b: "0 \<le> has_t1 h" "has_t1 h \<le> shape0 sub_ses_df"
      "0 \<le> has_t2 h" "has_t2 h \<le> shape0 sub_ses_df"
      "0 \<le> has_sefm h" "has_sefm h \<le> shape0 sub_ses_df"
      "0 \<le> has_dti h" "has_dti h \<le> shape0 sub_ses_df"
    using select_session_bounds [of sub_ses_df modalities] by blast
  show ?thesis
    using s b by (auto simp: tally_fields)
qed

theorem counts_bounded_by_rows_witness:
  "\<exists>paths h. select_session
      [mk_row ''ABCD-T1'' (IntV 1) ''t1'', mk_row ''ABCD-rsfMRI'' (IntV 1) ''rs'']
      [''anat'', ''func'', ''dwi''] = Inr (paths, h)
    \<and> has_t1 h = 1 \<and> has_rsfmri h = 10000 \<and> has_sefm h = 0 \<and> has_dti h = 0
    \<and> num_t1 (tally h no_totals) = 1"
proof -
  have s: "select_session
      [mk_row ''ABCD-T1'' (IntV 1) ''t1'', mk_row ''ABCD-rsfMRI'' (IntV 1) ''rs'']
      [''anat'', ''func'', ''dwi'']
     = Inr ([Some ''t1''], \<lparr>has_t1 = 1, has_t2 = 0, has_sefm = 0, has_rsfmri = 10000,
              has_mid = 10000, has_sst = 10000, has_nback = 10000, has_dti = 0\<rparr>)"
    by (simp add: select_session_def pass_QC_def add_anat_paths_eq add_func_paths_eq
        add_dwi_paths_eq anat_choice_def by_type_def func_active_def FUNC_TYPES_def
        func_fm_rows_def shape0_def)
  show ?thesis
    using counts_bounded_by_rows
      [of "[mk_row ''ABCD-T1'' (IntV 1) ''t1'', mk_row ''ABCD-rsfMRI'' (IntV 1) ''rs'']"
          "[''anat'', ''func'', ''dwi'']" no_totals]
    by (simp add: s shape0_def tally_fields no_totals_def)
qed

text \<open>
  A slice of 10000 usable T1 rows: the T1 count returned is 10000.
\<close>

theorem t1_count_10000_counterexample:
  "add_anat_paths (pass_QC (replicate 10000 (mk_row ''ABCD-T1'' (IntV 1) ''t1''))) []
     = (replicate 10000 (Some ''t1''), 10000, 0)"
  by (simp add: add_anat_paths_eq anat_choice_def by_type_def pass_QC_def shape0_def)

end

